theory Spec2Isabelle
  imports Complex_Main "HOL-Library.AList" "HOL-Library.Char_ord" "HOL-Library.List_Lexorder"
begin

section \<open>Values, errors and outcomes\<close>

text \<open>
  The report generator of \<^verbatim>\<open>src/main.py\<close> is glue code over two libraries: pandas (the
  \<^verbatim>\<open>DataFrame\<close> that carries a dataset) and openpyxl (the workbook that is written). The
  methods of the source are embedded one by one; the library calls they make are embedded
  by their documented behaviour, as far as the source depends on it.

  A cell value is a Python object. \<open>PNone\<close> is \<^verbatim>\<open>None\<close>, \<open>PInt\<close> an integer, \<open>PStr\<close> a string
  (a list of characters), \<open>PDate y m d\<close> a timestamp at midnight of that day, \<open>PNaT\<close> the
  missing timestamp and \<open>PNaN\<close> the floating-point not-a-number. \<open>POther r\<close> is a value of
  any other class that a worksheet cell accepts; all that is known of it is what
  \<^verbatim>\<open>str()\<close> returns for it (\<open>None\<close> when \<^verbatim>\<open>__str__\<close> raises). Floating-point arithmetic is
  not embedded.
\<close>

datatype pyval = PNone | PInt int | PStr string | PDate nat nat nat | PNaT | PNaN
  | POther "string option"

text \<open>
  Every exception the embedded code can raise is a value. \<open>Unmodelled\<close> marks an input on
  which the behaviour of a library call is outside of what this theory embeds; no theorem
  below draws a conclusion from it.
\<close>

datatype error = TypeError | ValueError | AttributeError | IndexError
  | IllegalCharacterError | OSError | Unmodelled

text \<open>
  A method that mutates an object and may raise returns the object as it is when the
  method returns or raises, together with the exception, if any.
\<close>

type_synonym 's outcome = "error option \<times> 's"

definition and_then :: "'s outcome \<Rightarrow> ('s \<Rightarrow> 's outcome) \<Rightarrow> 's outcome" where
  "and_then r f = (case r of (None, s) \<Rightarrow> f s | (Some e, s) \<Rightarrow> (Some e, s))"

text \<open>A \<^verbatim>\<open>for\<close> loop whose body may raise: the first exception ends the loop.\<close>

fun for_each :: "('a \<Rightarrow> 's \<Rightarrow> 's outcome) \<Rightarrow> 'a list \<Rightarrow> 's \<Rightarrow> 's outcome" where
  "for_each body [] s = (None, s)"
| "for_each body (x # xs) s =
     (case body x s of (None, s') \<Rightarrow> for_each body xs s' | (Some e, s') \<Rightarrow> (Some e, s'))"

subsection \<open>Decimal notation and \<^verbatim>\<open>str()\<close>\<close>

definition digit_char :: "nat \<Rightarrow> char" where
  "digit_char d = ''0123456789'' ! d"

fun nat_digits :: "nat \<Rightarrow> string" where
  "nat_digits n =
     (if n < 10 then [digit_char n] else nat_digits (n div 10) @ [digit_char (n mod 10)])"

definition int_str :: "int \<Rightarrow> string" where
  "int_str i = (if i < 0 then CHR ''-'' # nat_digits (nat (- i)) else nat_digits (nat i))"

text \<open>Zero padding to a width, as \<^verbatim>\<open>%d\<close>, \<^verbatim>\<open>%m\<close> and \<^verbatim>\<open>%Y\<close> of \<^verbatim>\<open>strftime\<close> do.\<close>

definition zero_pad :: "nat \<Rightarrow> nat \<Rightarrow> string" where
  "zero_pad w n = replicate (w - length (nat_digits n)) CHR ''0'' @ nat_digits n"

fun py_str :: "pyval \<Rightarrow> string option" where
  "py_str PNone = Some ''None''"
| "py_str (PInt i) = Some (int_str i)"
| "py_str (PStr s) = Some s"
| "py_str (PDate y m d) =
     Some (zero_pad 4 y @ ''-'' @ zero_pad 2 m @ ''-'' @ zero_pad 2 d @ '' 00:00:00'')"
| "py_str PNaT = Some ''NaT''"
| "py_str PNaN = Some ''nan''"
| "py_str (POther r) = r"

section \<open>Datasets\<close>

text \<open>
  A dataset is a pandas \<^verbatim>\<open>DataFrame\<close>: the column labels, the dtype of each column, and the
  rows as \<^verbatim>\<open>data.values\<close> yields them. Three dtypes are embedded: 64-bit integers,
  timestamps, and \<^verbatim>\<open>object\<close> (arbitrary Python objects, strings among them).
\<close>

datatype dtype = Int64 | Datetime64 | Object

record dataset =
  columns :: "string list"
  dtypes :: "dtype list"
  rows :: "pyval list list"

definition in_int64 :: "int \<Rightarrow> bool" where
  "in_int64 i \<longleftrightarrow> - (2 ^ 63) \<le> i \<and> i < 2 ^ 63"

fun conforms :: "dtype \<Rightarrow> pyval \<Rightarrow> bool" where
  "conforms Int64 (PInt i) = in_int64 i"
| "conforms Int64 _ = False"
| "conforms Datetime64 (PDate y m d) = True"
| "conforms Datetime64 PNaT = True"
| "conforms Datetime64 _ = False"
| "conforms Object _ = True"

text \<open>
  The invariants a \<^verbatim>\<open>DataFrame\<close> keeps by construction (a rectangular block of values, each
  column of its dtype), and unique column labels.
\<close>

definition rectangular :: "dataset \<Rightarrow> bool" where
  "rectangular D \<longleftrightarrow> list_all (\<lambda>r. length r = length (columns D)) (rows D)"

definition wf_dataset :: "dataset \<Rightarrow> bool" where
  "wf_dataset D \<longleftrightarrow>
     length (dtypes D) = length (columns D) \<and> distinct (columns D) \<and> rectangular D \<and>
     list_all (\<lambda>r. list_all2 conforms (dtypes D) r) (rows D)"


section \<open>Worksheets\<close>

subsection \<open>Styles\<close>

datatype font = Font (font_bold: bool) (font_color: "string option") (font_size: "nat option")

datatype fill = NoFill | PatternFill (start_color: string) (end_color: string) (fill_type: string)

datatype alignment = Alignment (horizontal: "string option") (vertical: "string option")

datatype side = Side (side_style: "string option")

datatype border = Border (left: side) (right: side) (top: side) (bottom: side)

text \<open>
  A cell of a worksheet. \<open>is_merged\<close> tells an openpyxl \<^verbatim>\<open>MergedCell\<close> (a placeholder inside
  a merged range: its value is always \<^verbatim>\<open>None\<close>, it takes styles, and it has no
  \<^verbatim>\<open>column_letter\<close>) from a \<^verbatim>\<open>Cell\<close>.
\<close>

record cell =
  cell_value :: pyval
  is_merged :: bool
  cell_font :: font
  cell_fill :: fill
  cell_alignment :: alignment
  cell_border :: border

definition new_cell :: cell where
  "new_cell = \<lparr>cell_value = PNone, is_merged = False, cell_font = Font False None None,
     cell_fill = NoFill, cell_alignment = Alignment None None,
     cell_border = Border (Side None) (Side None) (Side None) (Side None)\<rparr>"

definition merged_cell :: cell where
  "merged_cell = new_cell\<lparr>is_merged := True\<rparr>"

subsection \<open>Charts\<close>

datatype chart_kind = BarChart | LineChart

text \<open>\<^verbatim>\<open>Reference(ws, min_col, min_row, max_col, max_row)\<close>\<close>

record reference =
  min_col :: nat
  min_row :: nat
  max_col :: nat
  max_row :: nat

text \<open>A chart as \<^verbatim>\<open>add_chart\<close> builds it; the anchor is a (row, column) pair.\<close>

record chart =
  kind :: chart_kind
  title_of :: string
  style :: nat
  data_ref :: reference
  titles_from_data :: bool
  anchor :: "nat \<times> nat"

subsection \<open>The sheet\<close>

text \<open>
  A worksheet holds its cells in a dictionary keyed by (row, column), in insertion order,
  the width of each column that has one, the merged ranges and the charts.
\<close>

record sheet =
  cells :: "((nat \<times> nat) \<times> cell) list"
  column_width :: "(nat \<times> nat) list"
  merged_ranges :: "((nat \<times> nat) \<times> (nat \<times> nat)) list"
  charts :: "chart list"

definition empty_sheet :: sheet where
  "empty_sheet = \<lparr>cells = [], column_width = [], merged_ranges = [], charts = []\<rparr>"

definition cell_at :: "sheet \<Rightarrow> nat \<times> nat \<Rightarrow> cell option" where
  "cell_at ws k = map_of (cells ws) k"

text \<open>\<^verbatim>\<open>ws.max_row\<close> and \<^verbatim>\<open>ws.max_column\<close>: 1 on a sheet without cells.\<close>

definition ws_max_row :: "sheet \<Rightarrow> nat" where
  "ws_max_row ws = (case map (fst \<circ> fst) (cells ws) of [] \<Rightarrow> 1 | r # rs \<Rightarrow> fold max rs r)"

definition ws_max_column :: "sheet \<Rightarrow> nat" where
  "ws_max_column ws = (case map (snd \<circ> fst) (cells ws) of [] \<Rightarrow> 1 | c # cs \<Rightarrow> fold max cs c)"

text \<open>Changing the cell stored under a key, in place.\<close>

definition modify_cell :: "nat \<times> nat \<Rightarrow> (cell \<Rightarrow> cell) \<Rightarrow> sheet \<Rightarrow> sheet" where
  "modify_cell k f ws =
     ws\<lparr>cells := map (\<lambda>(k', c). if k' = k then (k', f c) else (k', c)) (cells ws)\<rparr>"

text \<open>
  \<^verbatim>\<open>Worksheet._get_cell\<close>: rows are limited to 1..1048576; a cell that does not exist yet
  is created empty and appended to the dictionary.
\<close>

definition get_cell :: "nat \<Rightarrow> nat \<Rightarrow> sheet \<Rightarrow> sheet outcome" where
  "get_cell row column ws =
     (if \<not> (0 < row \<and> row < 1048577) then (Some ValueError, ws)
      else if cell_at ws (row, column) = None
        then (None, ws\<lparr>cells := cells ws @ [((row, column), new_cell)]\<rparr>)
      else (None, ws))"

text \<open>
  The characters a cell string must not contain (\<^verbatim>\<open>ILLEGAL_CHARACTERS_RE\<close>: the control
  characters other than tab, line feed and carriage return).
\<close>

definition illegal_char :: "char \<Rightarrow> bool" where
  "illegal_char c \<longleftrightarrow>
     (let n = (of_char c :: nat) in n \<le> 8 \<or> n = 11 \<or> n = 12 \<or> (14 \<le> n \<and> n \<le> 31))"

text \<open>
  The setter of \<^verbatim>\<open>Cell.value\<close>: a string is cut to 32767 characters and then refused if it
  holds an illegal character; numbers and timestamps are stored as they are.
\<close>

fun bind_value :: "pyval \<Rightarrow> error + pyval" where
  "bind_value (PStr s) =
     (let s' = take 32767 s in
      if list_ex illegal_char s' then Inl IllegalCharacterError else Inr (PStr s'))"
| "bind_value v = Inr v"

text \<open>
  \<^verbatim>\<open>ws.cell(row=r, column=c, value=v)\<close>: the cell is fetched or created, and the value
  assigned unless it is \<^verbatim>\<open>None\<close>. A \<^verbatim>\<open>MergedCell\<close> refuses the assignment.
\<close>

definition ws_cell :: "nat \<Rightarrow> nat \<Rightarrow> pyval \<Rightarrow> sheet \<Rightarrow> sheet outcome" where
  "ws_cell row column v ws =
     (if row < 1 \<or> column < 1 then (Some ValueError, ws)
      else and_then (get_cell row column ws) (\<lambda>ws'.
        if v = PNone then (None, ws')
        else if (case cell_at ws' (row, column) of Some c \<Rightarrow> is_merged c | None \<Rightarrow> False)
          then (Some AttributeError, ws')
        else (case bind_value v of
                Inl e \<Rightarrow> (Some e, ws')
              | Inr v' \<Rightarrow> (None, modify_cell (row, column) (\<lambda>c. c\<lparr>cell_value := v'\<rparr>) ws'))))"

text \<open>
  Reading a sheet as a block of values, rows 1 to \<^verbatim>\<open>max_row\<close> and columns 1 to
  \<^verbatim>\<open>max_column\<close>; a position without a cell reads as \<^verbatim>\<open>None\<close>.
\<close>

definition value_at :: "sheet \<Rightarrow> nat \<times> nat \<Rightarrow> pyval" where
  "value_at ws k = (case cell_at ws k of None \<Rightarrow> PNone | Some c \<Rightarrow> cell_value c)"


subsection \<open>Populating a sheet\<close>

text \<open>
  The two loops of \<^verbatim>\<open>add_worksheet\<close>: the column labels go to row 1, the rows of
  \<^verbatim>\<open>data.values\<close> to the rows from 2 on; \<^verbatim>\<open>enumerate(xs, n)\<close> is \<open>List.enumerate n xs\<close>.
\<close>

definition write_row :: "nat \<Rightarrow> pyval list \<Rightarrow> sheet \<Rightarrow> sheet outcome" where
  "write_row row_num row_data ws =
     for_each (\<lambda>(col_num, v). ws_cell row_num col_num v) (List.enumerate 1 row_data) ws"

definition populate :: "dataset \<Rightarrow> sheet \<Rightarrow> sheet outcome" where
  "populate data ws =
     and_then (write_row 1 (map PStr (columns data)) ws)
       (for_each (\<lambda>(row_num, row_data). write_row row_num row_data)
          (List.enumerate 2 (rows data)))"

section \<open>The report generator\<close>

text \<open>
  \<^verbatim>\<open>ReportConfig\<close>, and the state an \<^verbatim>\<open>ExcelReportGenerator\<close> works on. Worksheets are
  objects shared between the workbook and the dictionary \<^verbatim>\<open>self.worksheets\<close>, so they live in
  a store and both refer to them by address. \<open>workbook\<close> is \<open>None\<close> until
  \<^verbatim>\<open>create_workbook\<close> has run, then the sheets of the workbook in order. \<open>saved\<close> records the
  files written: the path and the sheets of the workbook at that moment.
\<close>

record report_config =
  title :: string
  output_path :: string
  include_charts :: bool
  include_summary :: bool
  auto_format :: bool
  company_name :: string

record generator =
  store :: "sheet list"
  workbook :: "nat list option"
  worksheets :: "(string \<times> nat) list"
  saved :: "(string \<times> sheet list) list"



text \<open>The sheets of the workbook, in order.\<close>

definition workbook_sheets :: "generator \<Rightarrow> sheet list" where
  "workbook_sheets g = (case workbook g of None \<Rightarrow> [] | Some as \<Rightarrow> map (\<lambda>a. store g ! a) as)"

text \<open>\<^verbatim>\<open>create_workbook\<close>: a new workbook, its default sheet removed.\<close>

definition create_workbook :: "generator \<Rightarrow> generator outcome" where
  "create_workbook g = (None, g\<lparr>workbook := Some []\<rparr>)"

text \<open>
  A sheet title must not contain one of the characters \<^verbatim>\<open>\\ * ? : / [ ]\<close>
  (\<^verbatim>\<open>INVALID_TITLE_REGEX\<close>).
\<close>

definition valid_title :: "string \<Rightarrow> bool" where
  "valid_title t \<longleftrightarrow> \<not> list_ex (\<lambda>c. c \<in> set [CHR 0x5C, CHR ''*'', CHR ''?'', CHR '':'', CHR ''/'', CHR ''['', CHR '']'']) t"

text \<open>
  Running a step on the sheet at an address of the store.
\<close>

definition on_sheet :: "nat \<Rightarrow> (sheet \<Rightarrow> sheet outcome) \<Rightarrow> generator \<Rightarrow> generator outcome" where
  "on_sheet a step g =
     (case step (store g ! a) of (e, ws') \<Rightarrow> (e, g\<lparr>store := (store g)[a := ws']\<rparr>))"

text \<open>
  \<^verbatim>\<open>add_worksheet\<close>: \<^verbatim>\<open>create_sheet\<close> appends a new, empty sheet to the workbook (there is no
  workbook to call it on before \<^verbatim>\<open>create_workbook\<close>), the name is entered in
  \<^verbatim>\<open>self.worksheets\<close>, and the sheet is populated.
\<close>

definition add_worksheet :: "string \<Rightarrow> dataset \<Rightarrow> generator \<Rightarrow> generator outcome" where
  "add_worksheet name data g =
     (case workbook g of
        None \<Rightarrow> (Some AttributeError, g)
      | Some as \<Rightarrow>
          if \<not> valid_title name then (Some ValueError, g)
          else
            let a = length (store g);
                g' = g\<lparr>store := store g @ [empty_sheet], workbook := Some (as @ [a]),
                       worksheets := AList.update name a (worksheets g)\<rparr>
            in on_sheet a (populate data) g')"







subsection \<open>Formatting\<close>

definition header_font :: font where
  "header_font = Font True (Some ''FFFFFF'') None"

definition header_fill :: fill where
  "header_fill = PatternFill ''366092'' ''366092'' ''solid''"

definition header_alignment :: alignment where
  "header_alignment = Alignment (Some ''center'') (Some ''center'')"

definition thin_border :: border where
  "thin_border = Border (Side (Some ''thin'')) (Side (Some ''thin'')) (Side (Some ''thin''))
     (Side (Some ''thin''))"

definition header_style :: "cell \<Rightarrow> cell" where
  "header_style c =
     c\<lparr>cell_font := header_font, cell_fill := header_fill, cell_alignment := header_alignment\<rparr>"

definition border_style :: "cell \<Rightarrow> cell" where
  "border_style c = c\<lparr>cell_border := thin_border\<rparr>"

text \<open>
  Iterating over cells (\<^verbatim>\<open>ws[1]\<close>, \<^verbatim>\<open>ws.columns\<close>, \<^verbatim>\<open>ws.iter_rows()\<close>) fetches each cell with
  \<^verbatim>\<open>ws.cell\<close>, which creates the ones that do not exist.
\<close>

definition fetch :: "nat \<times> nat \<Rightarrow> sheet \<Rightarrow> sheet outcome" where
  "fetch k ws = ws_cell (fst k) (snd k) PNone ws"

definition restyle :: "(cell \<Rightarrow> cell) \<Rightarrow> (nat \<times> nat) list \<Rightarrow> sheet \<Rightarrow> sheet" where
  "restyle f ks ws = fold (\<lambda>k. modify_cell k f) ks ws"

text \<open>The header loop: the cells of row 1, columns 1 to \<^verbatim>\<open>max_column\<close>.\<close>

definition style_header :: "sheet \<Rightarrow> sheet outcome" where
  "style_header ws =
     (let ks = map (Pair 1) [1..<Suc (ws_max_column ws)] in
      and_then (for_each fetch ks ws) (\<lambda>ws'. (None, restyle header_style ks ws')))"

text \<open>
  The body of the width loop on one column: \<open>max_length\<close> is the loop over the cells, a
  cell whose \<^verbatim>\<open>str()\<close> raises is passed over. \<^verbatim>\<open>column[0].column_letter\<close> does not exist on a
  \<^verbatim>\<open>MergedCell\<close>, and column letters end at index 18278.
\<close>

definition max_length :: "pyval list \<Rightarrow> nat" where
  "max_length vs =
     fold (\<lambda>v m. case py_str v of None \<Rightarrow> m | Some s \<Rightarrow> if length s > m then length s else m)
       vs 0"

definition column_values :: "sheet \<Rightarrow> nat \<Rightarrow> nat \<Rightarrow> pyval list" where
  "column_values ws R c = map (\<lambda>r. value_at ws (r, c)) [1..<Suc R]"

definition fit_column :: "nat \<Rightarrow> nat \<Rightarrow> sheet \<Rightarrow> sheet outcome" where
  "fit_column R c ws =
     and_then (for_each fetch (map (\<lambda>r. (r, c)) [1..<Suc R]) ws) (\<lambda>ws'.
       if R = 0 then (Some IndexError, ws')
       else if (case cell_at ws' (1, c) of Some x \<Rightarrow> is_merged x | None \<Rightarrow> False)
         then (Some AttributeError, ws')
       else if 18278 < c then (Some ValueError, ws')
       else (None, ws'\<lparr>column_width :=
               AList.update c (min (max_length (column_values ws' R c) + 2) 50)
                 (column_width ws')\<rparr>))"

definition fit_columns :: "sheet \<Rightarrow> sheet outcome" where
  "fit_columns ws =
     for_each (fit_column (ws_max_row ws)) [1..<Suc (ws_max_column ws)] ws"

text \<open>The border loop, row by row.\<close>

definition add_borders :: "sheet \<Rightarrow> sheet outcome" where
  "add_borders ws =
     (let C = ws_max_column ws in
      for_each (\<lambda>r ws1.
          let ks = map (Pair r) [1..<Suc C] in
          and_then (for_each fetch ks ws1) (\<lambda>ws2. (None, restyle border_style ks ws2)))
        [1..<Suc (ws_max_row ws)] ws)"

definition format_sheet :: "sheet \<Rightarrow> sheet outcome" where
  "format_sheet ws = and_then (style_header ws) (\<lambda>ws1. and_then (fit_columns ws1) add_borders)"

definition format_worksheet :: "string \<Rightarrow> generator \<Rightarrow> generator outcome" where
  "format_worksheet ws_name g =
     (case map_of (worksheets g) ws_name of
        None \<Rightarrow> (None, g)
      | Some a \<Rightarrow> on_sheet a format_sheet g)"

subsection \<open>Charts on a sheet\<close>



section \<open>The analyzer\<close>

text \<open>
  \<^verbatim>\<open>ReportAnalyzer\<close> computes on the \<^verbatim>\<open>DataFrame\<close> with pandas. What pandas does is embedded
  for the three dtypes of a \<open>dataset\<close>; where it is not, the result is \<open>Inl Unmodelled\<close>.
\<close>

fun index_of :: "'a \<Rightarrow> 'a list \<Rightarrow> nat" where
  "index_of x [] = 0"
| "index_of x (y # ys) = (if x = y then 0 else Suc (index_of x ys))"

definition column_of :: "dataset \<Rightarrow> string \<Rightarrow> pyval list" where
  "column_of D name = map (\<lambda>r. r ! index_of name (columns D)) (rows D)"

definition dtype_of :: "dataset \<Rightarrow> string \<Rightarrow> dtype" where
  "dtype_of D name = dtypes D ! index_of name (columns D)"

text \<open>Sums of an \<^verbatim>\<open>int64\<close> column are taken in 64 bits and wrap around.\<close>

definition wrap64 :: "int \<Rightarrow> int" where
  "wrap64 x = (x + 2 ^ 63) mod 2 ^ 64 - 2 ^ 63"

fun int_of :: "pyval \<Rightarrow> int" where
  "int_of (PInt i) = i"
| "int_of _ = 0"

fun is_null :: "pyval \<Rightarrow> bool" where
  "is_null PNone = True"
| "is_null PNaT = True"
| "is_null PNaN = True"
| "is_null _ = False"

fun is_str :: "pyval \<Rightarrow> bool" where
  "is_str (PStr s) = True"
| "is_str _ = False"

fun is_int :: "pyval \<Rightarrow> bool" where
  "is_int (PInt i) = True"
| "is_int _ = False"

fun is_date :: "pyval \<Rightarrow> bool" where
  "is_date (PDate y m d) = True"
| "is_date _ = False"

text \<open>
  The order of values of one class: strings by their characters, integers by value,
  timestamps by date. The code of a value is ordered lexicographically; values of
  different classes are only compared where \<open>comparable\<close> holds.
\<close>

fun key_code :: "pyval \<Rightarrow> int list" where
  "key_code (PStr s) = map (\<lambda>c. int (of_char c)) s"
| "key_code (PInt i) = [i]"
| "key_code (PDate y m d) = [int y, int m, int d]"
| "key_code _ = []"

definition comparable :: "pyval list \<Rightarrow> bool" where
  "comparable vs \<longleftrightarrow> list_all is_str vs \<or> list_all is_int vs \<or> list_all is_date vs"

subsection \<open>Top performers\<close>




subsection \<open>Trend\<close>

text \<open>
  The growth rate is a floating-point number in the source; here it is the exact quotient,
  with the values a division by zero gives.
\<close>

datatype growth = GNaN | GPct rat | GInf | GNegInf

datatype trend_entry = TrendEntry (period: pyval) (total: int) (growth_rate: growth)

record trend_frame =
  trend_columns :: "string list"
  entries :: "trend_entry list"

text \<open>\<^verbatim>\<open>pct_change() * 100\<close> on two consecutive totals.\<close>

definition pct_change :: "int \<Rightarrow> int \<Rightarrow> growth" where
  "pct_change prev cur =
     (if prev \<noteq> 0 then GPct ((of_int cur / of_int prev - 1) * 100)
      else if cur > 0 then GInf else if cur < 0 then GNegInf else GNaN)"

fun growth_rates :: "int \<Rightarrow> int list \<Rightarrow> growth list" where
  "growth_rates prev [] = []"
| "growth_rates prev (x # xs) = pct_change prev x # growth_rates x xs"

text \<open>Months are numbered from year 0; the rows without a date are dropped.\<close>

fun dated :: "(pyval \<times> pyval) list \<Rightarrow> (nat \<times> int) list" where
  "dated [] = []"
| "dated ((PDate y m d, v) # r) = (y * 12 + (m - 1), int_of v) # dated r"
| "dated (_ # r) = dated r"

definition leap_year :: "nat \<Rightarrow> bool" where
  "leap_year y \<longleftrightarrow> (y mod 4 = 0 \<and> y mod 100 \<noteq> 0) \<or> y mod 400 = 0"

definition days_in_month :: "nat \<Rightarrow> nat \<Rightarrow> nat" where
  "days_in_month y m =
     (if m = 2 then (if leap_year y then 29 else 28)
      else if m \<in> set [4, 6, 9, 11] then 30 else 31)"

text \<open>The label of a monthly bin is the last day of the month.\<close>

definition month_end :: "nat \<Rightarrow> pyval" where
  "month_end i = PDate (i div 12) (i mod 12 + 1) (days_in_month (i div 12) (i mod 12 + 1))"

text \<open>
  \<^verbatim>\<open>groupby(pd.Grouper(key=date_col, freq='M'))[value_col].sum()\<close>: one bin for every month
  from the first to the last month that has a row; a bin without rows sums to 0.
\<close>

definition month_totals :: "(nat \<times> int) list \<Rightarrow> (nat \<times> int) list" where
  "month_totals pairs =
     (case map fst pairs of
        [] \<Rightarrow> []
      | i # is \<Rightarrow>
          map (\<lambda>m. (m, wrap64 (sum_list (map snd (filter (\<lambda>(j, v). j = m) pairs)))))
            [fold min is i ..< Suc (fold max is i)])"

definition trend_entries :: "(nat \<times> int) list \<Rightarrow> trend_entry list" where
  "trend_entries ts =
     (case map snd ts of
        [] \<Rightarrow> []
      | s # ss \<Rightarrow>
          map (\<lambda>((i, t), g). TrendEntry (month_end i) t g) (zip ts (GNaN # growth_rates s ss)))"

text \<open>
  \<^verbatim>\<open>get_trend_analysis\<close>. The grouper needs a timestamp column (\<^verbatim>\<open>TypeError\<close> otherwise), and
  timestamps cannot be summed.
\<close>

definition get_trend_analysis :: "dataset \<Rightarrow> string \<Rightarrow> string \<Rightarrow> error + trend_frame" where
  "get_trend_analysis D date_col value_col =
     (if date_col \<in> set (columns D) \<and> value_col \<in> set (columns D) then
        if \<not> distinct (columns D) then Inl Unmodelled
        else if dtype_of D date_col \<noteq> Datetime64 then Inl TypeError
        else if date_col = value_col then Inl Unmodelled
        else if dtype_of D value_col = Datetime64 then Inl TypeError
        else if dtype_of D value_col = Object then Inl Unmodelled
        else Inr \<lparr>trend_columns = [date_col, value_col, ''growth_rate''],
               entries = trend_entries (month_totals
                 (dated (zip (column_of D date_col) (column_of D value_col))))\<rparr>
      else Inr \<lparr>trend_columns = [], entries = []\<rparr>)"

subsection \<open>Summary statistics\<close>

text \<open>
  Of \<^verbatim>\<open>describe()\<close> the count, the minimum and the maximum are embedded; the mean, the standard
  deviation and the quartiles are floating-point numbers.
\<close>

datatype describe = Describe (d_count: nat) (d_min: "int option") (d_max: "int option")

record summary =
  total_records :: nat
  date_range :: "pyval \<times> pyval"
  numeric_summary :: "(string \<times> describe) list"

definition pick :: "bool \<Rightarrow> pyval list \<Rightarrow> pyval" where
  "pick greatest vs = (let s = sort_key key_code vs in if greatest then last s else hd s)"

text \<open>
  \<^verbatim>\<open>Series.min()\<close> and \<^verbatim>\<open>Series.max()\<close>: missing timestamps are skipped, an empty series gives
  the missing value, and an \<^verbatim>\<open>object\<close> series is compared with Python's \<^verbatim>\<open><\<close>, which raises
  \<^verbatim>\<open>TypeError\<close> between a string, an integer and a timestamp.
\<close>

definition series_extreme :: "bool \<Rightarrow> dtype \<Rightarrow> pyval list \<Rightarrow> error + pyval" where
  "series_extreme greatest dt vs =
     (case dt of
        Int64 \<Rightarrow> if vs = [] then Inr PNaN else Inr (pick greatest vs)
      | Datetime64 \<Rightarrow>
          (let ds = filter (\<lambda>v. \<not> is_null v) vs in
           if ds = [] then Inr PNaT else Inr (pick greatest ds))
      | Object \<Rightarrow>
          if vs = [] then Inr PNaN
          else if comparable vs then Inr (pick greatest vs)
          else if list_all (\<lambda>v. is_str v \<or> is_int v \<or> is_date v) vs then Inl TypeError
          else Inl Unmodelled)"

definition describe_column :: "pyval list \<Rightarrow> describe" where
  "describe_column vs =
     (if vs = [] then Describe 0 None None
      else Describe (length vs) (Some (int_of (pick False vs))) (Some (int_of (pick True vs))))"

definition numeric_cols :: "dataset \<Rightarrow> string list" where
  "numeric_cols D = map fst (filter (\<lambda>(c, t). t = Int64) (zip (columns D) (dtypes D)))"

text \<open>\<^verbatim>\<open>get_summary_stats\<close>; the date column is the one labelled \<^verbatim>\<open>data\<close>.\<close>

definition get_summary_stats :: "dataset \<Rightarrow> error + summary" where
  "get_summary_stats D =
     (if \<not> distinct (columns D) then Inl Unmodelled
      else if ''data'' \<in> set (columns D) then
        (case series_extreme False (dtype_of D ''data'') (column_of D ''data'') of
           Inl e \<Rightarrow> Inl e
         | Inr lo \<Rightarrow>
             (case series_extreme True (dtype_of D ''data'') (column_of D ''data'') of
                Inl e \<Rightarrow> Inl e
              | Inr hi \<Rightarrow>
                  Inr \<lparr>total_records = length (rows D), date_range = (lo, hi),
                    numeric_summary =
                      map (\<lambda>c. (c, describe_column (column_of D c))) (numeric_cols D)\<rparr>))
      else Inr \<lparr>total_records = length (rows D), date_range = (PNone, PNone),
             numeric_summary =
               map (\<lambda>c. (c, describe_column (column_of D c))) (numeric_cols D)\<rparr>)"

section \<open>The summary sheet and the complete report\<close>

text \<open>
  What the generator takes from its surroundings: the time of the call, already formatted
  by \<^verbatim>\<open>strftime('%d/%m/%Y %H:%M')\<close>, and whether the file system lets a path be written
  (\<^verbatim>\<open>mkdir\<close> of the parent and the file itself).
\<close>

record env =
  now :: string
  can_write :: "string \<Rightarrow> bool"

text \<open>
  \<^verbatim>\<open>ws.merge_cells\<close> on the range from \<open>a\<close> to \<open>b\<close>: every cell of the range but the first becomes
  a \<^verbatim>\<open>MergedCell\<close>.
\<close>

definition merge_cells :: "nat \<times> nat \<Rightarrow> nat \<times> nat \<Rightarrow> sheet \<Rightarrow> sheet" where
  "merge_cells a b ws =
     ws\<lparr>cells := fold (\<lambda>k cs. AList.update k merged_cell cs)
             (tl (concat (map (\<lambda>r. map (Pair r) [snd a..<Suc (snd b)]) [fst a..<Suc (fst b)])))
             (cells ws),
        merged_ranges := merged_ranges ws @ [(a, b)]\<rparr>"

text \<open>\<^verbatim>\<open>ws.cell(row=r, column=c).font = f\<close>\<close>

definition set_font :: "nat \<times> nat \<Rightarrow> font \<Rightarrow> sheet \<Rightarrow> sheet outcome" where
  "set_font k f ws = and_then (fetch k ws) (\<lambda>ws'. (None, modify_cell k (\<lambda>c. c\<lparr>cell_font := f\<rparr>) ws'))"

text \<open>The truth value of \<^verbatim>\<open>summary['date_range']['start']\<close> in the \<^verbatim>\<open>if\<close>.\<close>

fun truthy :: "pyval \<Rightarrow> error + bool" where
  "truthy PNone = Inr False"
| "truthy (PInt i) = Inr (i \<noteq> 0)"
| "truthy (PStr s) = Inr (s \<noteq> [])"
| "truthy (PDate y m d) = Inr True"
| "truthy PNaN = Inr True"
| "truthy PNaT = Inl Unmodelled"
| "truthy (POther r) = Inl Unmodelled"

text \<open>\<^verbatim>\<open>.strftime('%d/%m/%Y')\<close>: a method of timestamps only.\<close>

fun strftime_dmy :: "pyval \<Rightarrow> error + string" where
  "strftime_dmy (PDate y m d) = Inr (zero_pad 2 d @ ''/'' @ zero_pad 2 m @ ''/'' @ zero_pad 4 y)"
| "strftime_dmy PNaT = Inl Unmodelled"
| "strftime_dmy (POther r) = Inl Unmodelled"
| "strftime_dmy _ = Inl AttributeError"

definition write_period :: "pyval \<times> pyval \<Rightarrow> sheet \<Rightarrow> sheet outcome" where
  "write_period dr ws =
     (case truthy (fst dr) of
        Inl e \<Rightarrow> (Some e, ws)
      | Inr False \<Rightarrow> (None, ws)
      | Inr True \<Rightarrow>
          (case strftime_dmy (fst dr) of
             Inl e \<Rightarrow> (Some e, ws)
           | Inr a \<Rightarrow>
               (case strftime_dmy (snd dr) of
                  Inl e \<Rightarrow> (Some e, ws)
                | Inr b \<Rightarrow>
                    ws_cell 7 1
                      (PStr (''Per'' @ [CHR 0xED] @ ''odo: '' @ a @ '' a '' @ b)) ws)))"

text \<open>The lines of \<^verbatim>\<open>add_summary_sheet\<close> between \<^verbatim>\<open>create_sheet\<close> and \<^verbatim>\<open>format_worksheet\<close>.\<close>

definition compose_summary :: "report_config \<Rightarrow> env \<Rightarrow> dataset \<Rightarrow> sheet \<Rightarrow> sheet outcome" where
  "compose_summary cfg ev data ws =
     and_then (ws_cell 1 1
         (PStr (''RELAT'' @ [CHR 0xD3] @ ''RIO EXECUTIVO - '' @ company_name cfg)) ws) (\<lambda>ws.
     and_then (set_font (1, 1) (Font True None (Some 16)) ws) (\<lambda>ws.
     and_then (ws_cell 3 1 (PStr (''Gerado em: '' @ now ev)) (merge_cells (1, 1) (1, 5) ws)) (\<lambda>ws.
       case get_summary_stats data of
         Inl e \<Rightarrow> (Some e, ws)
       | Inr sm \<Rightarrow>
           and_then (ws_cell 5 1 (PStr (''ESTAT'' @ [CHR 0xCD] @ ''STICAS GERAIS'')) ws) (\<lambda>ws.
           and_then (set_font (5, 1) (Font True None None) ws) (\<lambda>ws.
           and_then (ws_cell 6 1
               (PStr (''Total de Registros: '' @ int_str (int (total_records sm)))) ws)
             (write_period (date_range sm)))))))"

definition add_summary_sheet ::
  "report_config \<Rightarrow> env \<Rightarrow> dataset \<Rightarrow> generator \<Rightarrow> generator outcome" where
  "add_summary_sheet cfg ev data g =
     (case workbook g of
        None \<Rightarrow> (Some AttributeError, g)
      | Some as \<Rightarrow>
          let a = length (store g);
              g' = g\<lparr>store := store g @ [empty_sheet], workbook := Some (as @ [a]),
                     worksheets := AList.update ''Resumo Executivo'' a (worksheets g)\<rparr>
          in and_then (on_sheet a (compose_summary cfg ev data) g')
               (format_worksheet ''Resumo Executivo''))"

text \<open>
  \<^verbatim>\<open>save_report\<close>. Without a workbook it logs and returns. \<^verbatim>\<open>Workbook.save\<close> opens the file and
  then serialises the workbook; openpyxl refuses a workbook that has no visible sheet
  (\<^verbatim>\<open>IndexError: At least one sheet must be visible\<close>). \<open>saved\<close> gets the files written to
  the end.
\<close>

definition save_report :: "report_config \<Rightarrow> env \<Rightarrow> generator \<Rightarrow> generator outcome" where
  "save_report cfg ev g =
     (case workbook g of
        None \<Rightarrow> (None, g)
      | Some as \<Rightarrow>
          if \<not> can_write ev (output_path cfg) then (Some OSError, g)
          else if as = [] then (Some IndexError, g)
          else (None, g\<lparr>saved := saved g @ [(output_path cfg, workbook_sheets g)]\<rparr>))"

text \<open>
  The body of the \<^verbatim>\<open>try\<close> of \<^verbatim>\<open>generate_complete_report\<close>; \<open>data_dict\<close> is the dictionary in its
  order, the first dataset is that of its first entry.
\<close>

definition add_data_sheet ::
  "report_config \<Rightarrow> string \<times> dataset \<Rightarrow> generator \<Rightarrow> generator outcome" where
  "add_data_sheet cfg entry g =
     and_then (add_worksheet (fst entry) (snd entry) g) (\<lambda>g'.
       if auto_format cfg then format_worksheet (fst entry) g' else (None, g'))"

definition report_steps ::
  "report_config \<Rightarrow> env \<Rightarrow> (string \<times> dataset) list \<Rightarrow> generator \<Rightarrow> generator outcome" where
  "report_steps cfg ev data_dict g =
     and_then (create_workbook g) (\<lambda>g.
     and_then (for_each (add_data_sheet cfg) data_dict g) (\<lambda>g.
     and_then (if include_summary cfg \<and> data_dict \<noteq> []
               then add_summary_sheet cfg ev (snd (hd data_dict)) g else (None, g))
       (save_report cfg ev)))"

text \<open>
  \<^verbatim>\<open>generate_complete_report\<close>: \<^verbatim>\<open>True\<close> when the body ran to its end, \<^verbatim>\<open>False\<close> when
  \<^verbatim>\<open>except Exception\<close> caught something; the generator is left as it was at that moment.
\<close>

definition generate_complete_report ::
  "report_config \<Rightarrow> env \<Rightarrow> (string \<times> dataset) list \<Rightarrow> generator \<Rightarrow> bool \<times> generator" where
  "generate_complete_report cfg ev data_dict g =
     (case report_steps cfg ev data_dict g of
        (None, g') \<Rightarrow> (True, g')
      | (Some e, g') \<Rightarrow> (False, g'))"

section \<open>Example data\<close>

text \<open>The dataset of the ranking scenario: three sales in two regions.\<close>

definition sales :: dataset where
  "sales = \<lparr>columns = [''region'', ''amount''], dtypes = [Object, Int64],
     rows = [[PStr ''North'', PInt 100], [PStr ''South'', PInt 50], [PStr ''North'', PInt 25]]\<rparr>"





text \<open>A dataset whose \<^verbatim>\<open>data\<close> column holds a string and an integer.\<close>

definition mixed :: dataset where
  "mixed = \<lparr>columns = [''data''], dtypes = [Object], rows = [[PStr ''a''], [PInt 1]]\<rparr>"










definition two_months :: dataset where
  "two_months = \<lparr>columns = [''data'', ''amount''], dtypes = [Datetime64, Int64],
     rows = [[PDate 2024 1 15, PInt 60], [PDate 2024 2 3, PInt 150], [PDate 2024 1 20, PInt 40]]\<rparr>"

section \<open>Properties of populating a sheet\<close>






















section \<open>Properties of charts\<close>








section \<open>Properties of the analyzer\<close>

lemma series_extreme_typed:
  "dt \<noteq> Object \<or> comparable vs \<Longrightarrow> \<exists>v. series_extreme b dt vs = Inr v"
  by (cases dt) (auto simp: series_extreme_def Let_def)

lemma numeric_cols_empty:
  "length (dtypes D) = length (columns D) \<Longrightarrow> numeric_cols D = [] \<longleftrightarrow> Int64 \<notin> set (dtypes D)"
proof -
  assume len: "length (dtypes D) = length (columns D)"
  have "numeric_cols D = [] \<longleftrightarrow> (\<forall>p\<in>set (zip (columns D) (dtypes D)). snd p \<noteq> Int64)"
    by (auto simp: numeric_cols_def filter_empty_conv)
  also have "\<dots> \<longleftrightarrow> Int64 \<notin> snd ` set (zip (columns D) (dtypes D))" by force
  also have "snd ` set (zip (columns D) (dtypes D)) = set (dtypes D)"
    using len by (metis map_snd_zip set_map)
  finally show ?thesis .
qed

text \<open>
  Claim C6, as it holds: on a well-formed dataset that has no \<^verbatim>\<open>data\<close> column, or whose
  \<^verbatim>\<open>data\<close> column is an integer or timestamp column or holds values of one class,
  \<^verbatim>\<open>get_summary_stats\<close> returns a summary: the record count is the number of rows, the date
  range is (\<^verbatim>\<open>None\<close>, \<^verbatim>\<open>None\<close>) when there is no \<^verbatim>\<open>data\<close> column, and the block of numeric
  statistics is empty exactly when no column is numeric.
\<close>

theorem get_summary_stats_partial:
  assumes "wf_dataset D"
    and "''data'' \<in> set (columns D) \<and> dtype_of D ''data'' = Object
      \<longrightarrow> comparable (column_of D ''data'')"
  shows "\<exists>sm. get_summary_stats D = Inr sm \<and> total_records sm = length (rows D) \<and>
    (''data'' \<notin> set (columns D) \<longrightarrow> date_range sm = (PNone, PNone)) \<and>
    (numeric_summary sm = [] \<longleftrightarrow> Int64 \<notin> set (dtypes D))"
proof -
  have d: "distinct (columns D)" and len: "length (dtypes D) = length (columns D)"
    using assms(1) by (simp_all add: wf_dataset_def)
  note ne = numeric_cols_empty[OF len]
  show ?thesis
  proof (cases "''data'' \<in> set (columns D)")
    case False
    then show ?thesis using d ne by (simp add: get_summary_stats_def)
  next
    case True
    with assms(2) have ok: "dtype_of D ''data'' \<noteq> Object \<or> comparable (column_of D ''data'')"
      by blast
    obtain lo where lo: "series_extreme False (dtype_of D ''data'') (column_of D ''data'') = Inr lo"
      using series_extreme_typed[OF ok] by blast
    obtain hi where hi: "series_extreme True (dtype_of D ''data'') (column_of D ''data'') = Inr hi"
      using series_extreme_typed[OF ok] by blast
    show ?thesis using True d ne lo hi by (simp add: get_summary_stats_def)
  qed
qed

text \<open>The theorem at the dataset of three sales, which has no \<^verbatim>\<open>data\<close> column.\<close>

theorem get_summary_stats_partial_witness:
  "\<exists>sm. get_summary_stats sales = Inr sm \<and> total_records sm = length (rows sales) \<and>
    (''data'' \<notin> set (columns sales) \<longrightarrow> date_range sm = (PNone, PNone)) \<and>
    (numeric_summary sm = [] \<longleftrightarrow> Int64 \<notin> set (dtypes sales))"
  by (rule get_summary_stats_partial)
    (simp_all add: sales_def wf_dataset_def rectangular_def in_int64_def)

text \<open>
  Claim C6 as stated fails: on a dataset whose \<^verbatim>\<open>data\<close> column holds a string and an
  integer, the minimum of the column compares the two and \<^verbatim>\<open>get_summary_stats\<close> raises
  \<^verbatim>\<open>TypeError\<close>.
\<close>

theorem get_summary_stats_raises:
  "wf_dataset mixed \<and> get_summary_stats mixed = Inl TypeError"
  by (simp add: mixed_def wf_dataset_def rectangular_def get_summary_stats_def
      series_extreme_def dtype_of_def column_of_def comparable_def)

subsection \<open>Stable sorting\<close>





subsection \<open>Top performers\<close>


















subsection \<open>Trend\<close>
















text \<open>The scenario of two months: 100 in the first, 150 in the second, a growth of 50.\<close>

lemma trend_two_months:
  "get_trend_analysis two_months ''data'' ''amount'' =
     Inr \<lparr>trend_columns = [''data'', ''amount'', ''growth_rate''],
       entries = [TrendEntry (PDate 2024 1 31) 100 GNaN,
                  TrendEntry (PDate 2024 2 29) 150 (GPct 50)]\<rparr>"
  by (simp add: get_trend_analysis_def two_months_def dtype_of_def column_of_def
      month_totals_def trend_entries_def month_end_def days_in_month_def leap_year_def
      wrap64_def pct_change_def)


end
